theory Spec2Isabelle
  imports
    Main
    "HOL-Library.Char_ord"
    "HOL-Library.List_Lexorder"
    "HOL-Library.Sublist"
    "HOL-Library.Log_Nat"
begin

section \<open>Python values of the script\<close>

text \<open>
  The script \<^verbatim>\<open>generate_snp500_tickers_financial_data.py\<close> builds one dictionary per
  ticker. Every value it stores is either a string or Python's \<^verbatim>\<open>None\<close>, so a value is
  a \<open>string option\<close> (\<open>None\<close> is Python's \<^verbatim>\<open>None\<close>) and a dictionary is a map from keys
  to such values; a key that is not in the map makes \<^verbatim>\<open>d[k]\<close> raise \<^verbatim>\<open>KeyError\<close>.

  Strings are compared as Python compares \<^verbatim>\<open>str\<close>: lexicographically, character code by
  character code, a proper prefix being smaller. That is the
  lexicographic order on lists of the library, over the order of characters by code.
\<close>

datatype error =
    KeyError string
  | ZeroDivisionError
  | OverflowError
  | ProviderError string

type_synonym py_dict = "string \<rightharpoonup> string option"

definition getitem :: "py_dict \<Rightarrow> string \<Rightarrow> error + string option" where
  "getitem d k = (case d k of None \<Rightarrow> Inl (KeyError k) | Some v \<Rightarrow> Inr v)"

section \<open>The period tables\<close>

text \<open>
  \<^verbatim>\<open>five_year_periods\<close> and \<^verbatim>\<open>ten_year_periods\<close> are dictionaries from a label to a pair
  of dates. Python dictionaries iterate in insertion order, so each is an association
  list, and \<open>keys\<close> is \<^verbatim>\<open>.keys()\<close>.
\<close>

definition five_year_periods :: "(string \<times> string \<times> string) list" where
  "five_year_periods =
    [(''1994-1999'', (''1994-01-01'', ''1999-01-01'')),
     (''1999-2004'', (''1999-01-01'', ''2004-01-01'')),
     (''2004-2009'', (''2004-01-01'', ''2009-01-01'')),
     (''2009-2014'', (''2009-01-01'', ''2014-01-01'')),
     (''2014-2019'', (''2014-01-01'', ''2019-01-01'')),
     (''2019-2024'', (''2019-01-01'', ''2024-10-22''))]"

definition ten_year_periods :: "(string \<times> string \<times> string) list" where
  "ten_year_periods =
    [(''1994-2004'', (''1994-01-01'', ''2004-01-01'')),
     (''2004-2014'', (''2004-01-01'', ''2014-01-01'')),
     (''2014-2024'', (''2014-01-01'', ''2024-10-22''))]"

definition keys :: "('k \<times> 'v) list \<Rightarrow> 'k list" where
  "keys d = map fst d"

section \<open>find_outperformers\<close>

text \<open>
  \<^verbatim>\<open>
  def find_outperformers(stock_data, benchmark_data):
      outperformers = []
      for stock in stock_data:
          ticker = stock["Ticker"]
          if all(stock[period] is not None and benchmark_data[period] is not None
                 and stock[period] > benchmark_data[period]
                 for period in five_year_periods.keys()):
              outperformers.append(ticker)
      return outperformers
  \<close>
  \<open>outperforms_all\<close> is the \<^verbatim>\<open>all(...)\<close> over the generator: it reads the periods in order
  and stops at the first false conjunct, so a later missing key is never looked up.
  Within one period the conjunction is evaluated left to right: \<^verbatim>\<open>stock[period]\<close> first
  (\<^verbatim>\<open>KeyError\<close> when the key is absent), then \<^verbatim>\<open>benchmark_data[period]\<close>, then the
  comparison of the two stored values, which are strings.
\<close>

fun outperforms_all :: "py_dict \<Rightarrow> py_dict \<Rightarrow> string list \<Rightarrow> error + bool" where
  "outperforms_all stock benchmark_data [] = Inr True"
| "outperforms_all stock benchmark_data (period # periods) =
    (case getitem stock period of
       Inl e \<Rightarrow> Inl e
     | Inr None \<Rightarrow> Inr False
     | Inr (Some s) \<Rightarrow>
        (case getitem benchmark_data period of
           Inl e \<Rightarrow> Inl e
         | Inr None \<Rightarrow> Inr False
         | Inr (Some b) \<Rightarrow>
            if s > b then outperforms_all stock benchmark_data periods else Inr False))"

fun find_outperformers_loop ::
  "py_dict list \<Rightarrow> py_dict \<Rightarrow> string option list \<Rightarrow> error + string option list" where
  "find_outperformers_loop [] benchmark_data outperformers = Inr outperformers"
| "find_outperformers_loop (stock # rest) benchmark_data outperformers =
    (case getitem stock ''Ticker'' of
       Inl e \<Rightarrow> Inl e
     | Inr ticker \<Rightarrow>
        (case outperforms_all stock benchmark_data (keys five_year_periods) of
           Inl e \<Rightarrow> Inl e
         | Inr True \<Rightarrow> find_outperformers_loop rest benchmark_data (outperformers @ [ticker])
         | Inr False \<Rightarrow> find_outperformers_loop rest benchmark_data outperformers))"

definition find_outperformers :: "py_dict list \<Rightarrow> py_dict \<Rightarrow> error + string option list" where
  "find_outperformers stock_data benchmark_data =
     find_outperformers_loop stock_data benchmark_data []"

text \<open>
  A record qualifies against a benchmark when the \<^verbatim>\<open>all(...)\<close> of the source is true
  for it.
\<close>

definition qualifies :: "py_dict \<Rightarrow> py_dict \<Rightarrow> bool" where
  "qualifies benchmark_data stock \<longleftrightarrow>
     outperforms_all stock benchmark_data (keys five_year_periods) = Inr True"

text \<open>
  Example records are written as Python writes a dictionary literal: the ticker, then one
  value per 5-year label in the order of the table.
\<close>

definition growth_record :: "string \<Rightarrow> string option list \<Rightarrow> py_dict" where
  "growth_record ticker vs =
     map_of ((''Ticker'', Some ticker) # zip (keys five_year_periods) vs)"

section \<open>Numbers\<close>

text \<open>
  The formatters receive Python numbers: an \<^verbatim>\<open>int\<close> (unbounded) or a \<^verbatim>\<open>float\<close> (IEEE
  binary64). A float is represented by the rational number it denotes; the model covers
  the finite floats (NaN, the infinities and the sign of zero are not numbers of the
  model).

  \<open>binary64\<close> rounds a rational to the nearest binary64 value, ties to even: 53
  significant bits, with the fixed quantum \<open>2 ^ -1074\<close> below the normal range. It is
  what Python does when it reads a float literal, converts an \<^verbatim>\<open>int\<close> to a \<^verbatim>\<open>float\<close>,
  or divides two floats. The overflow above the largest float is checked by the caller.
\<close>

datatype number = PyInt int | PyFloat rat

definition round_half_even :: "rat \<Rightarrow> int" where
  "round_half_even x =
     (let f = \<lfloor>x\<rfloor>; d = x - of_int f
      in if d < 1 / 2 then f
         else if 1 / 2 < d then f + 1
         else if even f then f else f + 1)"

definition floor_log2 :: "rat \<Rightarrow> int" where
  "floor_log2 x = (if 1 \<le> x then bitlen \<lfloor>x\<rfloor> - 1 else - bitlen (\<lceil>1 / x\<rceil> - 1))"

definition binary64 :: "rat \<Rightarrow> rat" where
  "binary64 x =
     (if x = 0 then 0
      else let e = max (floor_log2 \<bar>x\<bar>) (- 1022);
               u = power_int 2 (e - 52)
           in sgn x * of_int (round_half_even (\<bar>x\<bar> / u)) * u)"

definition number_value :: "number \<Rightarrow> rat" where
  "number_value v = (case v of PyInt i \<Rightarrow> of_int i | PyFloat q \<Rightarrow> q)"

text \<open>
  \<open>to_float\<close> is the conversion Python applies to an \<^verbatim>\<open>int\<close> operand of a float
  operation and to an \<^verbatim>\<open>int\<close> formatted with \<^verbatim>\<open>f\<close>: the nearest float, and
  \<^verbatim>\<open>OverflowError\<close> (``int too large to convert to float'') when that is beyond the
  finite floats.
\<close>

definition to_float :: "number \<Rightarrow> error + rat" where
  "to_float v =
     (case v of
        PyFloat q \<Rightarrow> Inr q
      | PyInt i \<Rightarrow>
          (let r = binary64 (of_int i)
           in if 2 ^ 1024 \<le> \<bar>r\<bar> then Inl OverflowError else Inr r))"

text \<open>
  \<^verbatim>\<open>value >= c\<close> for a float constant \<open>c\<close>: Python compares an \<^verbatim>\<open>int\<close> with a
  \<^verbatim>\<open>float\<close> by their exact values, without converting. \<^verbatim>\<open>value / c\<close> converts the
  left operand and rounds the quotient; the script divides by \<^verbatim>\<open>1e9\<close> and \<^verbatim>\<open>1e6\<close>
  only, so the quotient cannot overflow.
\<close>

definition number_ge :: "number \<Rightarrow> rat \<Rightarrow> bool" where
  "number_ge v c \<longleftrightarrow> c \<le> number_value v"

definition truediv :: "number \<Rightarrow> rat \<Rightarrow> error + rat" where
  "truediv v c = (case to_float v of Inl e \<Rightarrow> Inl e | Inr x \<Rightarrow> Inr (binary64 (x / c)))"

subsection \<open>The format specification \<^verbatim>\<open>.2f\<close>\<close>

text \<open>
  Python renders a float with \<^verbatim>\<open>.2f\<close> as the decimal numeral with two fractional digits
  nearest to the exact value of the float, ties to even, with a minus sign for a negative
  value (also when the digits are all zero) and no sign otherwise.
\<close>

definition digit_char :: "int \<Rightarrow> char" where
  "digit_char d =
     (if d = 0 then CHR ''0'' else if d = 1 then CHR ''1'' else if d = 2 then CHR ''2''
      else if d = 3 then CHR ''3'' else if d = 4 then CHR ''4'' else if d = 5 then CHR ''5''
      else if d = 6 then CHR ''6'' else if d = 7 then CHR ''7'' else if d = 8 then CHR ''8''
      else CHR ''9'')"

function str_int :: "int \<Rightarrow> string" where
  "str_int n = (if n < 10 then [digit_char n] else str_int (n div 10) @ [digit_char (n mod 10)])"
  by pat_completeness auto
termination
  by (relation "measure nat") auto

declare str_int.simps [simp del]

definition sign_str :: "rat \<Rightarrow> string" where
  "sign_str x = (if x < 0 then [CHR ''-''] else [])"

definition format_2f :: "rat \<Rightarrow> string" where
  "format_2f x =
     (let n = round_half_even (\<bar>x\<bar> * 100)
      in sign_str x @ str_int (n div 100) @ [CHR ''.''] @
         [digit_char (n div 10 mod 10), digit_char (n mod 10)])"

text \<open>
  To say what a rendered numeral denotes, \<open>decimal_value\<close> reads a string of decimal
  digits as an integer. It is not part of the script.
\<close>

definition is_digit :: "char \<Rightarrow> bool" where
  "is_digit c \<longleftrightarrow> c \<in> set ''0123456789''"

definition digit_value :: "char \<Rightarrow> int" where
  "digit_value c = int (of_char c) - 48"

definition decimal_value :: "string \<Rightarrow> int" where
  "decimal_value ds = foldl (\<lambda>a c. 10 * a + digit_value c) 0 ds"

section \<open>calculate_growth_rate, format_currency, format_percentage\<close>

text \<open>
  \<^verbatim>\<open>
  def calculate_growth_rate(start_price, end_price):
      return ((end_price - start_price) / start_price) * 100
  \<close>
  The prices are the exact values of the numbers passed and the three operations are
  exact: the rounding of each floating-point operation is not part of this function's
  model. Python raises \<^verbatim>\<open>ZeroDivisionError\<close> for a zero divisor.
\<close>

definition calculate_growth_rate :: "rat \<Rightarrow> rat \<Rightarrow> error + rat" where
  "calculate_growth_rate start_price end_price =
     (if start_price = 0 then Inl ZeroDivisionError
      else Inr (((end_price - start_price) / start_price) * 100))"

text \<open>
  \<^verbatim>\<open>
  def format_currency(value):
      if value is None:
          return "N/A"
      if value >= 1e9:
          return f"${value / 1e9:.2f}B"
      elif value >= 1e6:
          return f"${value / 1e6:.2f}M"
      else:
          return f"${value:.2f}"

  def format_percentage(value):
      if value is None:
          return "N/A"
      return f"{value:.2f}%"
  \<close>
\<close>

definition format_currency :: "number option \<Rightarrow> error + string" where
  "format_currency value =
     (case value of
        None \<Rightarrow> Inr ''N/A''
      | Some v \<Rightarrow>
          if number_ge v (10 ^ 9) then
            (case truediv v (10 ^ 9) of
               Inl e \<Rightarrow> Inl e
             | Inr q \<Rightarrow> Inr (''$'' @ format_2f q @ ''B''))
          else if number_ge v (10 ^ 6) then
            (case truediv v (10 ^ 6) of
               Inl e \<Rightarrow> Inl e
             | Inr q \<Rightarrow> Inr (''$'' @ format_2f q @ ''M''))
          else
            (case to_float v of
               Inl e \<Rightarrow> Inl e
             | Inr x \<Rightarrow> Inr (''$'' @ format_2f x)))"

definition format_percentage :: "number option \<Rightarrow> error + string" where
  "format_percentage value =
     (case value of
        None \<Rightarrow> Inr ''N/A''
      | Some v \<Rightarrow>
          (case to_float v of
             Inl e \<Rightarrow> Inl e
           | Inr x \<Rightarrow> Inr (format_2f x @ ''%'')))"

section \<open>fetch_growth_and_financials\<close>

text \<open>
  The data provider (\<^verbatim>\<open>yfinance\<close>) is outside the program. A run is determined by what
  the provider answers to each query, and every query can raise:
  \<^item> \<open>net_income\<close> is \<^verbatim>\<open>stock.financials.loc['Net Income'].iloc[0]\<close>,
  \<^item> \<open>market_cap\<close> is \<^verbatim>\<open>stock.info.get('marketCap', None)\<close>,
  \<^item> \<open>total_revenue\<close> is \<^verbatim>\<open>stock.financials.loc['Total Revenue'].iloc[0]\<close>,
  \<^item> \<open>history_close\<close> is the \<^verbatim>\<open>Close\<close> column of \<^verbatim>\<open>stock.history(start=..., end=...)\<close>,
    the empty list when the frame is empty (\<^verbatim>\<open>data.empty\<close>).
  Creating \<^verbatim>\<open>yf.Ticker(ticker)\<close> sends no query. The \<^verbatim>\<open>print\<close> calls only write to the
  console and are left out.
\<close>

record provider =
  net_income :: "string \<Rightarrow> error + number"
  market_cap :: "string \<Rightarrow> error + number option"
  total_revenue :: "string \<Rightarrow> error + number"
  history_close :: "string \<Rightarrow> string \<Rightarrow> string \<Rightarrow> error + rat list"

text \<open>
  The first \<^verbatim>\<open>try\<close> block: the three queries in the order of the source; an exception
  in any of them reaches the handler, which sets all three variables to \<^verbatim>\<open>None\<close>. The
  result is \<open>(earnings, market_cap, revenue)\<close>.
\<close>

definition fetch_fundamentals ::
  "provider \<Rightarrow> string \<Rightarrow> number option \<times> number option \<times> number option" where
  "fetch_fundamentals yf ticker =
     (case net_income yf ticker of
        Inl e \<Rightarrow> (None, None, None)
      | Inr earnings \<Rightarrow>
          (case market_cap yf ticker of
             Inl e \<Rightarrow> (None, None, None)
           | Inr cap \<Rightarrow>
               (case total_revenue yf ticker of
                  Inl e \<Rightarrow> (None, None, None)
                | Inr revenue \<Rightarrow> (Some earnings, cap, Some revenue))))"

text \<open>
  The body of the loop over the periods, as the value it stores under the period's label:
  \<^verbatim>\<open>None\<close> when the query raises, when the frame is empty, or when anything after it
  raises inside the \<^verbatim>\<open>try\<close>; otherwise the formatted growth between the first and the
  last closing price.
\<close>

definition fetch_period :: "provider \<Rightarrow> string \<Rightarrow> string \<Rightarrow> string \<Rightarrow> string option" where
  "fetch_period yf ticker start_date end_date =
     (case history_close yf ticker start_date end_date of
        Inl e \<Rightarrow> None
      | Inr [] \<Rightarrow> None
      | Inr (c # cs) \<Rightarrow>
          (case calculate_growth_rate c (last (c # cs)) of
             Inl e \<Rightarrow> None
           | Inr growth_rate \<Rightarrow>
               (case format_percentage (Some (PyFloat growth_rate)) of
                  Inl e \<Rightarrow> None
                | Inr s \<Rightarrow> Some s)))"

fun fetch_periods ::
  "provider \<Rightarrow> string \<Rightarrow> (string \<times> string \<times> string) list \<Rightarrow> py_dict \<Rightarrow> py_dict" where
  "fetch_periods yf ticker [] result = result"
| "fetch_periods yf ticker ((period_name, start_date, end_date) # rest) result =
     fetch_periods yf ticker rest
       (result(period_name \<mapsto> fetch_period yf ticker start_date end_date))"

text \<open>
  One iteration of the loop over the tickers. The three calls of \<^verbatim>\<open>format_currency\<close> are
  outside every \<^verbatim>\<open>try\<close>: an exception raised there leaves the function.
\<close>

definition fetch_ticker :: "provider \<Rightarrow> string \<Rightarrow> error + py_dict" where
  "fetch_ticker yf ticker =
     (case fetch_fundamentals yf ticker of
        (earnings, cap, revenue) \<Rightarrow>
          (case format_currency revenue of
             Inl e \<Rightarrow> Inl e
           | Inr latest_revenue \<Rightarrow>
               (case format_currency earnings of
                  Inl e \<Rightarrow> Inl e
                | Inr latest_earnings \<Rightarrow>
                    (case format_currency cap of
                       Inl e \<Rightarrow> Inl e
                     | Inr cap_str \<Rightarrow>
                         Inr (fetch_periods yf ticker five_year_periods
                               [''Ticker'' \<mapsto> Some ticker,
                                ''Latest Revenue'' \<mapsto> Some latest_revenue,
                                ''Latest Earnings'' \<mapsto> Some latest_earnings,
                                ''Market Cap'' \<mapsto> Some cap_str])))))"

fun fetch_loop :: "provider \<Rightarrow> string list \<Rightarrow> py_dict list \<Rightarrow> error + py_dict list" where
  "fetch_loop yf [] financial_data = Inr financial_data"
| "fetch_loop yf (ticker # tickers) financial_data =
     (case fetch_ticker yf ticker of
        Inl e \<Rightarrow> Inl e
      | Inr result \<Rightarrow> fetch_loop yf tickers (financial_data @ [result]))"

definition fetch_growth_and_financials :: "provider \<Rightarrow> string list \<Rightarrow> error + py_dict list" where
  "fetch_growth_and_financials yf tickers = fetch_loop yf tickers []"


section \<open>Example inputs\<close>

text \<open>
  The scenario of the specification, over the six labels of the script: the benchmark
  grew 10.00% in the first period and 5.00% in each later one; ticker A grew 12.00% and
  then 6.00%; ticker B has no value for the second period; ticker C grew 9.00% in the
  first period, less than the benchmark, and 6.00% afterwards.
\<close>

definition scenario_benchmark :: py_dict where
  "scenario_benchmark =
     growth_record ''SPY''
       [Some ''10.00%'', Some ''5.00%'', Some ''5.00%'', Some ''5.00%'', Some ''5.00%'',
        Some ''5.00%'']"

definition ticker_a :: py_dict where
  "ticker_a =
     growth_record ''A''
       [Some ''12.00%'', Some ''6.00%'', Some ''6.00%'', Some ''6.00%'', Some ''6.00%'',
        Some ''6.00%'']"

definition ticker_b :: py_dict where
  "ticker_b =
     growth_record ''B''
       [Some ''12.00%'', None, Some ''6.00%'', Some ''6.00%'', Some ''6.00%'',
        Some ''6.00%'']"

definition ticker_c :: py_dict where
  "ticker_c =
     growth_record ''C''
       [Some ''9.00%'', Some ''6.00%'', Some ''6.00%'', Some ''6.00%'', Some ''6.00%'',
        Some ''6.00%'']"

text \<open>
  Two records that carry the same ticker, as the script's own ticker list produces
  (\<^verbatim>\<open>GOOGL\<close>, \<^verbatim>\<open>AMZN\<close>, \<^verbatim>\<open>QQQ\<close> and others occur twice in it, and each occurrence is
  fetched on its own): in the first the query for the first period failed.
\<close>

definition googl_first :: py_dict where
  "googl_first =
     growth_record ''GOOGL''
       [None, Some ''6.00%'', Some ''6.00%'', Some ''6.00%'', Some ''6.00%'', Some ''6.00%'']"

definition googl_second :: py_dict where
  "googl_second =
     growth_record ''GOOGL''
       [Some ''12.00%'', Some ''6.00%'', Some ''6.00%'', Some ''6.00%'', Some ''6.00%'',
        Some ''6.00%'']"

text \<open>
  A provider for which the fundamentals of \<^verbatim>\<open>BAD\<close> cannot be read, the price history
  of the first period is empty, the query for the second period raises, and every other
  period has the closing prices 100, 120, 150.
\<close>

definition example_provider :: provider where
  "example_provider =
     \<lparr> net_income = (\<lambda>t. Inr (PyFloat 99803000000)),
       market_cap = (\<lambda>t. Inr (Some (PyInt 2500000000))),
       total_revenue =
         (\<lambda>t. if t = ''BAD'' then Inl (KeyError ''Total Revenue'') else Inr (PyFloat 2500000)),
       history_close =
         (\<lambda>t start_date end_date.
            if start_date = ''1994-01-01'' then Inr []
            else if start_date = ''1999-01-01'' then Inl (ProviderError ''timeout'')
            else Inr [100, 120, 150]) \<rparr>"

section \<open>Properties of find_outperformers\<close>

lemma find_outperformers_loop_Inr:
  "find_outperformers_loop stock_data bench acc = Inr out \<Longrightarrow>
   map Some out = map Some acc @ map (\<lambda>r. r ''Ticker'') (filter (qualifies bench) stock_data)"
proof (induction stock_data arbitrary: acc)
  case Nil
  then show ?case by simp
next
  case (Cons stock rest)
  then show ?case
    by (auto simp: getitem_def qualifies_def split: option.splits sum.splits bool.splits if_splits)
qed

lemma outperforms_all_returns:
  "set ps \<subseteq> dom stock \<Longrightarrow> set ps \<subseteq> dom bench \<Longrightarrow> \<exists>b. outperforms_all stock bench ps = Inr b"
  by (induction ps) (auto simp: getitem_def split: option.splits)

lemma find_outperformers_loop_returns:
  "\<forall>r\<in>set stock_data. ''Ticker'' \<in> dom r \<and> set (keys five_year_periods) \<subseteq> dom r \<Longrightarrow>
   set (keys five_year_periods) \<subseteq> dom bench \<Longrightarrow>
   \<exists>out. find_outperformers_loop stock_data bench acc = Inr out"
proof (induction stock_data arbitrary: acc)
  case Nil
  then show ?case by simp
next
  case (Cons stock rest)
  from Cons.prems obtain b where b: "outperforms_all stock bench (keys five_year_periods) = Inr b"
    using outperforms_all_returns[of "keys five_year_periods" stock bench] by auto
  from Cons.prems obtain t where t: "stock ''Ticker'' = Some t" by auto
  from Cons.prems have rest: "\<forall>r\<in>set rest. ''Ticker'' \<in> dom r \<and> set (keys five_year_periods) \<subseteq> dom r"
    by simp
  show ?case using Cons.IH[OF rest Cons.prems(2)] b t
    by (cases b) (simp_all add: getitem_def)
qed

lemma outperforms_all_True_iff:
  "outperforms_all stock bench ps = Inr True \<longleftrightarrow>
   (\<forall>p\<in>set ps. \<exists>s b. stock p = Some (Some s) \<and> bench p = Some (Some b) \<and> b < s)"
  by (induction ps) (auto simp: getitem_def split: option.splits)

lemma keys_five_year_periods:
  "keys five_year_periods =
     [''1994-1999'', ''1999-2004'', ''2004-2009'', ''2009-2014'', ''2014-2019'', ''2019-2024'']"
  by (simp add: keys_def five_year_periods_def)

lemma ticker_a_outperforms: "outperforms_all ticker_a scenario_benchmark (keys five_year_periods) = Inr True"
  by (simp add: keys_five_year_periods ticker_a_def scenario_benchmark_def growth_record_def getitem_def)
lemma ticker_b_outperforms: "outperforms_all ticker_b scenario_benchmark (keys five_year_periods) = Inr False"
  by (simp add: keys_five_year_periods ticker_b_def scenario_benchmark_def growth_record_def getitem_def)
lemma ticker_c_outperforms: "outperforms_all ticker_c scenario_benchmark (keys five_year_periods) = Inr True"
  by (simp add: keys_five_year_periods ticker_c_def scenario_benchmark_def growth_record_def getitem_def)
lemma googl_first_outperforms: "outperforms_all googl_first scenario_benchmark (keys five_year_periods) = Inr False"
  by (simp add: keys_five_year_periods googl_first_def scenario_benchmark_def growth_record_def getitem_def)
lemma googl_second_outperforms: "outperforms_all googl_second scenario_benchmark (keys five_year_periods) = Inr True"
  by (simp add: keys_five_year_periods googl_second_def scenario_benchmark_def growth_record_def getitem_def)

lemma example_tickers: "ticker_a ''Ticker'' = Some (Some ''A'')" "ticker_b ''Ticker'' = Some (Some ''B'')"
  "ticker_c ''Ticker'' = Some (Some ''C'')" "googl_first ''Ticker'' = Some (Some ''GOOGL'')"
  "googl_second ''Ticker'' = Some (Some ''GOOGL'')"
  by (simp_all add: ticker_a_def ticker_b_def ticker_c_def googl_first_def googl_second_def growth_record_def)

lemma scenario_result: "find_outperformers [ticker_a, ticker_b, ticker_c] scenario_benchmark = Inr [Some ''A'', Some ''C'']"
  by (simp add: find_outperformers_def getitem_def example_tickers ticker_a_outperforms ticker_b_outperforms ticker_c_outperforms)

lemma duplicate_result: "find_outperformers [googl_first, googl_second] scenario_benchmark = Inr [Some ''GOOGL'']"
  by (simp add: find_outperformers_def getitem_def example_tickers googl_first_outperforms googl_second_outperforms)

text \<open>
  Claim C10. For every list of records and every benchmark record, the list returned by
  \<^verbatim>\<open>find_outperformers\<close> is an ordered sublist of the tickers of the input: it is the
  list of the tickers of the qualifying records, one entry per qualifying record, in the
  order of the input. A list is returned whenever every record and the benchmark carry
  the keys that are read.
\<close>

theorem find_outperformers_ordered_sublist:
  "(\<forall>out. find_outperformers stock_data benchmark_data = Inr out \<longrightarrow>
      map Some out = map (\<lambda>stock. stock ''Ticker'') (filter (qualifies benchmark_data) stock_data)
      \<and> subseq (map Some out) (map (\<lambda>stock. stock ''Ticker'') stock_data)) \<and>
   ((\<forall>stock\<in>set stock_data. ''Ticker'' \<in> dom stock \<and> set (keys five_year_periods) \<subseteq> dom stock)
      \<and> set (keys five_year_periods) \<subseteq> dom benchmark_data \<longrightarrow>
    (\<exists>out. find_outperformers stock_data benchmark_data = Inr out))"
proof (intro conjI allI impI)
  fix out
  assume r: "find_outperformers stock_data benchmark_data = Inr out"
  then show eq: "map Some out =
      map (\<lambda>stock. stock ''Ticker'') (filter (qualifies benchmark_data) stock_data)"
    using find_outperformers_loop_Inr[of stock_data benchmark_data "[]" out]
    by (simp add: find_outperformers_def)
  have "subseq (filter (qualifies benchmark_data) stock_data) stock_data"
    by (rule subseq_filter_left)
  then show "subseq (map Some out) (map (\<lambda>stock. stock ''Ticker'') stock_data)"
    unfolding eq by (rule subseq_map)
next
  assume "(\<forall>stock\<in>set stock_data. ''Ticker'' \<in> dom stock \<and> set (keys five_year_periods) \<subseteq> dom stock)
      \<and> set (keys five_year_periods) \<subseteq> dom benchmark_data"
  then show "\<exists>out. find_outperformers stock_data benchmark_data = Inr out"
    using find_outperformers_loop_returns[of stock_data benchmark_data "[]"]
    by (simp add: find_outperformers_def)
qed

theorem find_outperformers_ordered_sublist_witness:
  "find_outperformers [ticker_a, ticker_b, googl_second] scenario_benchmark
     = Inr [Some ''A'', Some ''GOOGL'']
   \<and> map Some [Some ''A'', Some ''GOOGL''] =
       map (\<lambda>stock. stock ''Ticker'')
         (filter (qualifies scenario_benchmark) [ticker_a, ticker_b, googl_second])
   \<and> subseq (map Some [Some ''A'', Some ''GOOGL''])
        (map (\<lambda>stock. stock ''Ticker'') [ticker_a, ticker_b, googl_second])"
proof -
  have r: "find_outperformers [ticker_a, ticker_b, googl_second] scenario_benchmark
     = Inr [Some ''A'', Some ''GOOGL'']"
    by (simp add: find_outperformers_def getitem_def example_tickers ticker_a_outperforms ticker_b_outperforms googl_second_outperforms)
  show ?thesis
    using r find_outperformers_ordered_sublist
      [of "[ticker_a, ticker_b, googl_second]" scenario_benchmark]
    by blast
qed

text \<open>
  Claim C6 says that the ticker of a record with a missing value is excluded from the
  returned list. Two records can carry the same ticker; when the other one qualifies,
  the ticker is in the list.
\<close>

theorem missing_value_ticker_counterexample:
  "googl_first ''1994-1999'' = Some None
   \<and> googl_first ''Ticker'' = Some (Some ''GOOGL'')
   \<and> find_outperformers [googl_first, googl_second] scenario_benchmark = Inr [Some ''GOOGL'']"
  by (simp add: duplicate_result example_tickers) (simp add: googl_first_def growth_record_def keys_five_year_periods)

text \<open>
  Claim C6, amended. A record whose growth value, or the benchmark's, is \<^verbatim>\<open>None\<close> for
  at least one 5-year period does not qualify, whatever its other values are, and so
  contributes no entry to the returned list, which holds the tickers of the qualifying
  records only; its ticker is absent from the list unless another record of the input
  with the same ticker qualifies.
\<close>

theorem missing_value_record_excluded:
  assumes "find_outperformers stock_data benchmark_data = Inr out"
    and "stock \<in> set stock_data"
    and "\<exists>period\<in>set (keys five_year_periods).
           stock period = Some None \<or> benchmark_data period = Some None"
  shows "\<not> qualifies benchmark_data stock
    \<and> map Some out = map (\<lambda>r. r ''Ticker'') (filter (qualifies benchmark_data) stock_data)
    \<and> ((\<forall>other\<in>set stock_data.
           other ''Ticker'' = stock ''Ticker'' \<longrightarrow> \<not> qualifies benchmark_data other)
         \<longrightarrow> stock ''Ticker'' \<notin> Some ` set out)"
proof (intro conjI impI)
  show nq: "\<not> qualifies benchmark_data stock"
    using assms(3) unfolding qualifies_def outperforms_all_True_iff by fastforce
  show eq: "map Some out = map (\<lambda>r. r ''Ticker'') (filter (qualifies benchmark_data) stock_data)"
    using assms(1) find_outperformers_loop_Inr[of stock_data benchmark_data "[]" out]
    by (simp add: find_outperformers_def)
  assume others: "\<forall>other\<in>set stock_data.
           other ''Ticker'' = stock ''Ticker'' \<longrightarrow> \<not> qualifies benchmark_data other"
  have "Some ` set out = set (map Some out)" by simp
  also have "\<dots> = (\<lambda>r. r ''Ticker'') ` {r \<in> set stock_data. qualifies benchmark_data r}"
    unfolding eq by simp
  finally show "stock ''Ticker'' \<notin> Some ` set out"
    using others by auto
qed

theorem missing_value_record_excluded_witness:
  "find_outperformers [ticker_a, ticker_b] scenario_benchmark = Inr [Some ''A'']
   \<and> \<not> qualifies scenario_benchmark ticker_b
   \<and> ticker_b ''Ticker'' \<notin> Some ` set [Some ''A'']"
proof -
  have r: "find_outperformers [ticker_a, ticker_b] scenario_benchmark = Inr [Some ''A'']"
    by (simp add: find_outperformers_def getitem_def example_tickers ticker_a_outperforms ticker_b_outperforms)
  have m: "\<exists>period\<in>set (keys five_year_periods).
      ticker_b period = Some None \<or> scenario_benchmark period = Some None"
    by (simp add: keys_five_year_periods ticker_b_def growth_record_def)
  have o: "\<forall>other\<in>set [ticker_a, ticker_b].
      other ''Ticker'' = ticker_b ''Ticker'' \<longrightarrow> \<not> qualifies scenario_benchmark other"
    by (simp add: example_tickers qualifies_def ticker_b_outperforms)
  show ?thesis
    using r o missing_value_record_excluded [OF r _ m, of] by simp
qed

text \<open>
  Claim C1 at the scenario of the specification. The filter compares the formatted
  strings, not the growth rates: ticker C, whose 9.00% is below the benchmark's 10.00%,
  is returned as an outperformer, because the string \<^verbatim>\<open>"9.00%"\<close> is greater than the
  string \<^verbatim>\<open>"10.00%"\<close>. Tickers A and B are treated as the claim says.
\<close>

theorem find_outperformers_compares_strings:
  "find_outperformers [ticker_a, ticker_b, ticker_c] scenario_benchmark
     = Inr [Some ''A'', Some ''C'']
   \<and> ticker_c ''1994-1999'' = Some (Some ''9.00%'')
   \<and> scenario_benchmark ''1994-1999'' = Some (Some ''10.00%'')
   \<and> ''10.00%'' < ''9.00%''"
  by (simp add: scenario_result) (simp add: ticker_c_def scenario_benchmark_def growth_record_def keys_five_year_periods)

section \<open>Properties of the fetcher\<close>

lemma fetch_periods_lookup:
  "distinct (map fst ps) \<Longrightarrow>
   fetch_periods yf ticker ps result k =
     (case map_of ps k of
        None \<Rightarrow> result k
      | Some (start_date, end_date) \<Rightarrow> Some (fetch_period yf ticker start_date end_date))"
proof (induction ps arbitrary: result)
  case Nil
  then show ?case by simp
next
  case (Cons p ps)
  obtain name s e where p: "p = (name, s, e)" by (cases p) auto
  from Cons.prems have d: "distinct (map fst ps)" and n: "name \<notin> fst ` set ps"
    by (auto simp: p)
  from n have m: "map_of ps name = None" by (simp add: map_of_eq_None_iff)
  show ?case
    using m by (simp add: p Cons.IH[OF d] split: option.splits)
qed

lemma distinct_five_year_periods: "distinct (map fst five_year_periods)"
  by (simp add: five_year_periods_def)

lemma fetch_periods_five_year:
  "(period_name, start_date, end_date) \<in> set five_year_periods \<Longrightarrow>
   fetch_periods yf ticker five_year_periods result period_name =
     Some (fetch_period yf ticker start_date end_date)"
  using fetch_periods_lookup[OF distinct_five_year_periods, of yf ticker result period_name]
    map_of_is_SomeI[OF distinct_five_year_periods, of period_name "(start_date, end_date)"]
  by simp

lemma fetch_periods_other:
  "k \<notin> set (keys five_year_periods) \<Longrightarrow>
   fetch_periods yf ticker five_year_periods result k = result k"
  using fetch_periods_lookup[OF distinct_five_year_periods, of yf ticker result k]
  by (simp add: keys_def map_of_eq_None_iff[THEN iffD2])

lemma fetch_ticker_Inr:
  "fetch_ticker yf ticker = Inr result \<Longrightarrow>
   \<exists>r e c. result = fetch_periods yf ticker five_year_periods
       [''Ticker'' \<mapsto> Some ticker, ''Latest Revenue'' \<mapsto> Some r,
        ''Latest Earnings'' \<mapsto> Some e, ''Market Cap'' \<mapsto> Some c]"
  by (auto simp: fetch_ticker_def split: prod.splits sum.splits)

lemma fetch_ticker_period:
  "fetch_ticker yf ticker = Inr result \<Longrightarrow>
   (period_name, start_date, end_date) \<in> set five_year_periods \<Longrightarrow>
   result period_name = Some (fetch_period yf ticker start_date end_date)"
  using fetch_ticker_Inr fetch_periods_five_year by blast

lemma fetch_loop_Inr:
  "fetch_loop yf tickers acc = Inr out \<Longrightarrow>
   \<exists>rs. out = acc @ rs \<and> map Inr rs = map (fetch_ticker yf) tickers"
proof (induction tickers arbitrary: acc)
  case Nil
  then show ?case by simp
next
  case (Cons t ts)
  then show ?case by (fastforce split: sum.splits)
qed

lemma fetch_growth_and_financials_nth:
  assumes "fetch_growth_and_financials yf tickers = Inr financial_data"
  shows "length financial_data = length tickers"
    and "i < length tickers \<Longrightarrow> fetch_ticker yf (tickers ! i) = Inr (financial_data ! i)"
proof -
  from assms fetch_loop_Inr[of yf tickers "[]" financial_data]
  have m: "map Inr financial_data = map (fetch_ticker yf) tickers"
    by (simp add: fetch_growth_and_financials_def)
  from m show l: "length financial_data = length tickers"
    using map_eq_imp_length_eq by blast
  assume i: "i < length tickers"
  have "map Inr financial_data ! i = map (fetch_ticker yf) tickers ! i"
    using m by simp
  with i l show "fetch_ticker yf (tickers ! i) = Inr (financial_data ! i)" by simp
qed

lemma fetch_period_Some:
  "fetch_period yf ticker start_date end_date = Some g \<Longrightarrow>
   \<exists>c cs growth. history_close yf ticker start_date end_date = Inr (c # cs)
     \<and> calculate_growth_rate c (last (c # cs)) = Inr growth
     \<and> format_percentage (Some (PyFloat growth)) = Inr g"
  unfolding fetch_period_def
  by (simp split: sum.splits list.splits del: last.simps)

lemma fetch_period_None:
  "isl (history_close yf ticker start_date end_date)
     \<or> history_close yf ticker start_date end_date = Inr [] \<Longrightarrow>
   fetch_period yf ticker start_date end_date = None"
  unfolding fetch_period_def by (auto split: sum.splits)

lemma fetch_growth_and_financials_set:
  assumes "fetch_growth_and_financials yf tickers = Inr financial_data"
    and "result \<in> set financial_data"
  shows "\<exists>ticker\<in>set tickers. fetch_ticker yf ticker = Inr result"
proof -
  from assms(2) obtain i where i: "i < length financial_data" "financial_data ! i = result"
    by (auto simp: in_set_conv_nth)
  from fetch_growth_and_financials_nth[OF assms(1)] i
  have "tickers ! i \<in> set tickers" "fetch_ticker yf (tickers ! i) = Inr result"
    by auto
  then show ?thesis by blast
qed

lemma fetch_ticker_dom:
  assumes "fetch_ticker yf ticker = Inr result"
  shows "dom result =
     {''Ticker'', ''Latest Revenue'', ''Latest Earnings'', ''Market Cap''}
       \<union> set (keys five_year_periods)"
proof -
  from fetch_ticker_Inr[OF assms] obtain r e c where
    res: "result = fetch_periods yf ticker five_year_periods
       [''Ticker'' \<mapsto> Some ticker, ''Latest Revenue'' \<mapsto> Some r,
        ''Latest Earnings'' \<mapsto> Some e, ''Market Cap'' \<mapsto> Some c]"
    by blast
  have "k \<in> dom result \<longleftrightarrow>
        k \<in> {''Ticker'', ''Latest Revenue'', ''Latest Earnings'', ''Market Cap''}
              \<union> set (keys five_year_periods)" for k
  proof (cases "k \<in> set (keys five_year_periods)")
    case True
    then obtain s e where "(k, s, e) \<in> set five_year_periods"
      by (auto simp: keys_def)
    from fetch_ticker_period[OF assms this] True show ?thesis by auto
  next
    case False
    from fetch_periods_other[OF False] False show ?thesis
      unfolding res by (auto simp: dom_def)
  qed
  then show ?thesis by blast
qed


lemma example_formats:
  "format_currency (Some (PyFloat 99803000000)) = Inr ''$99.80B''"
  "format_currency (Some (PyInt 2500000000)) = Inr ''$2.50B''"
  "format_currency (Some (PyFloat 2500000)) = Inr ''$2.50M''"
  "format_percentage (Some (PyFloat 50)) = Inr ''50.00%''"
  by code_simp+

lemma example_fetch_spy: "\<exists>result. fetch_ticker example_provider ''SPY'' = Inr result"
  by (simp add: fetch_ticker_def fetch_fundamentals_def example_provider_def example_formats)

lemma example_periods:
  "(''1994-1999'', ''1994-01-01'', ''1999-01-01'') \<in> set five_year_periods"
  "(''1999-2004'', ''1999-01-01'', ''2004-01-01'') \<in> set five_year_periods"
  "(''2004-2009'', ''2004-01-01'', ''2009-01-01'') \<in> set five_year_periods"
  by (simp_all add: five_year_periods_def)

lemma example_fetch_period:
  "fetch_period example_provider ticker ''1994-01-01'' ''1999-01-01'' = None"
  "fetch_period example_provider ticker ''1999-01-01'' ''2004-01-01'' = None"
  "fetch_period example_provider ticker ''2004-01-01'' ''2009-01-01'' = Some ''50.00%''"
  by (simp_all add: fetch_period_def example_provider_def calculate_growth_rate_def
      example_formats)

text \<open>
  Claim C7. In every record produced by \<^verbatim>\<open>fetch_growth_and_financials\<close> (one per
  ticker, in order), the value stored for a 5-year period is present only if the price
  history of that period was retrieved and not empty, and then it is the formatted growth
  between its first and its last closing price; when the history is empty or the query
  raised, the value is \<^verbatim>\<open>None\<close>. The label is always a key of the record.
\<close>

theorem growth_present_only_if_prices_retrieved:
  assumes "fetch_growth_and_financials yf tickers = Inr financial_data"
    and "i < length tickers"
    and "(period_name, start_date, end_date) \<in> set five_year_periods"
  shows "length financial_data = length tickers
    \<and> (\<forall>g. (financial_data ! i) period_name = Some (Some g) \<longrightarrow>
         (\<exists>c cs growth.
            history_close yf (tickers ! i) start_date end_date = Inr (c # cs)
            \<and> calculate_growth_rate c (last (c # cs)) = Inr growth
            \<and> format_percentage (Some (PyFloat growth)) = Inr g))
    \<and> (isl (history_close yf (tickers ! i) start_date end_date)
         \<or> history_close yf (tickers ! i) start_date end_date = Inr []
       \<longrightarrow> (financial_data ! i) period_name = Some None)
    \<and> (financial_data ! i) period_name \<noteq> None"
proof -
  note n = fetch_growth_and_financials_nth[OF assms(1)]
  have v: "(financial_data ! i) period_name =
      Some (fetch_period yf (tickers ! i) start_date end_date)"
    using fetch_ticker_period[OF n(2)[OF assms(2)] assms(3)] .
  show ?thesis
    using n(1) v fetch_period_Some[of yf "tickers ! i" start_date end_date]
      fetch_period_None[of yf "tickers ! i" start_date end_date]
    by auto
qed

theorem growth_present_only_if_prices_retrieved_witness:
  "\<exists>financial_data.
     fetch_growth_and_financials example_provider [''SPY''] = Inr financial_data
     \<and> (0::nat) < length [''SPY'']
     \<and> (''1994-1999'', ''1994-01-01'', ''1999-01-01'') \<in> set five_year_periods
     \<and> length financial_data = length [''SPY'']
     \<and> history_close example_provider ''SPY'' ''1994-01-01'' ''1999-01-01'' = Inr []
     \<and> (financial_data ! 0) ''1994-1999'' = Some None
     \<and> (financial_data ! 0) ''2004-2009'' = Some (Some ''50.00%'')"
proof -
  from example_fetch_spy obtain result
    where r: "fetch_ticker example_provider ''SPY'' = Inr result" ..
  then have fd: "fetch_growth_and_financials example_provider [''SPY''] = Inr [result]"
    by (simp add: fetch_growth_and_financials_def)
  have h: "history_close example_provider ''SPY'' ''1994-01-01'' ''1999-01-01'' = Inr []"
    by (simp add: example_provider_def)
  have i: "(0::nat) < length [''SPY'']" by simp
  from growth_present_only_if_prices_retrieved [OF fd i example_periods(1)] h
  have "length [result] = length [''SPY'']" "result ''1994-1999'' = Some None"
    by simp_all
  moreover have "result ''2004-2009'' = Some (Some ''50.00%'')"
    using fetch_ticker_period[OF r example_periods(3)] by (simp add: example_fetch_period)
  ultimately show ?thesis
    using fd h example_periods(1) by (intro exI[of _ "[result]"]) simp
qed



text \<open>
  Claim C9 says that the fetcher computes a growth value for each 10-year window. It does
  not: \<^verbatim>\<open>ten_year_periods\<close> is never read. The keys of every record are the ticker, the
  three fundamental fields and the six 5-year labels; no 10-year label is among them.
\<close>

theorem ten_year_periods_never_fetched:
  assumes "fetch_growth_and_financials yf tickers = Inr financial_data"
    and "result \<in> set financial_data"
  shows "dom result =
       {''Ticker'', ''Latest Revenue'', ''Latest Earnings'', ''Market Cap''}
         \<union> set (keys five_year_periods)
    \<and> (\<forall>label\<in>set (keys ten_year_periods). result label = None)"
proof -
  from fetch_growth_and_financials_set[OF assms] obtain ticker
    where "fetch_ticker yf ticker = Inr result" by blast
  from fetch_ticker_dom[OF this]
  have d: "dom result =
       {''Ticker'', ''Latest Revenue'', ''Latest Earnings'', ''Market Cap''}
         \<union> set (keys five_year_periods)" .
  have "\<forall>label\<in>set (keys ten_year_periods). result label = None"
  proof
    fix label
    assume "label \<in> set (keys ten_year_periods)"
    then have "label \<notin> dom result"
      unfolding d by (auto simp: keys_def ten_year_periods_def five_year_periods_def)
    then show "result label = None" by (simp add: domIff)
  qed
  with d show ?thesis by blast
qed

theorem ten_year_periods_never_fetched_witness:
  "\<exists>financial_data.
     fetch_growth_and_financials example_provider [''SPY''] = Inr financial_data
     \<and> financial_data ! 0 \<in> set financial_data
     \<and> (financial_data ! 0) ''1994-2004'' = None
     \<and> (financial_data ! 0) ''2004-2014'' = None
     \<and> (financial_data ! 0) ''2014-2024'' = None
     \<and> (financial_data ! 0) ''2014-2019'' \<noteq> None"
proof -
  from example_fetch_spy obtain result
    where r: "fetch_ticker example_provider ''SPY'' = Inr result" ..
  then have fd: "fetch_growth_and_financials example_provider [''SPY''] = Inr [result]"
    by (simp add: fetch_growth_and_financials_def)
  have m: "result \<in> set [result]" by simp
  from ten_year_periods_never_fetched [OF fd m]
  have d: "dom result =
       {''Ticker'', ''Latest Revenue'', ''Latest Earnings'', ''Market Cap''}
         \<union> set (keys five_year_periods)"
    and t: "\<forall>label\<in>set (keys ten_year_periods). result label = None"
    by blast+
  from t have "result ''1994-2004'' = None" "result ''2004-2014'' = None"
    "result ''2014-2024'' = None"
    by (simp_all add: keys_def ten_year_periods_def)
  moreover have "''2014-2019'' \<in> dom result"
    unfolding d by (simp add: keys_def five_year_periods_def)
  then have "result ''2014-2019'' \<noteq> None" by (simp add: domIff)
  ultimately show ?thesis
    using fd by (intro exI[of _ "[result]"]) simp
qed

section \<open>Properties of calculate_growth_rate\<close>



end
